theory Spec2Isabelle
  imports Complex_Main "HOL-Library.Word" "HOL-Library.Log_Nat"
begin

section \<open>Reader for TwinCAT scope view SVB files (svbfile.py)\<close>

text \<open>
  The development embeds \<^verbatim>\<open>svbfile.py\<close>: the header reader \<^verbatim>\<open>_readheader\<close>, the
  constructor of \<^verbatim>\<open>Channel\<close>, its \<^verbatim>\<open>Time\<close> property and \<^verbatim>\<open>interpolate\<close>, and
  the constructor of \<^verbatim>\<open>SVBFile\<close>.

  Conventions of the embedding:
  \<^item> a byte is an \<open>8 word\<close>; a file or an \<^verbatim>\<open>io.BytesIO\<close> is its byte list and a position;
  \<^item> a Python \<^verbatim>\<open>int\<close> that cannot be negative here is a \<open>nat\<close> (unbounded, as in Python);
  \<^item> a Python \<^verbatim>\<open>str\<close> is represented by its UTF-8 encoding, a \<open>string\<close>; decoding
    checks that the bytes are well-formed UTF-8 and keeps them;
  \<^item> a \<^verbatim>\<open>datetime\<close> is the number of microseconds since 1601-01-01 00:00:00;
  \<^item> a float64 read from the file is kept as its IEEE bit pattern (\<open>64 word\<close>); a
    float64 that the program computes is the rational number it denotes, and every
    float64 operation rounds the exact result to the nearest float64, ties to even
    (\<open>fl64\<close>); overflow to infinity and subnormal numbers do not occur at the
    magnitudes of this program and are not modelled;
  \<^item> every exception is a value of \<open>error\<close>, returned as \<open>Inl\<close>; \<^verbatim>\<open>assert\<close> statements
    are executed (the interpreter does not run with \<^verbatim>\<open>-O\<close>).
\<close>

subsection \<open>Errors, bytes and streams\<close>

type_synonym byte = "8 word"

datatype error =
    StructError
  | UnicodeDecodeError
  | OverflowError
  | IOError string
  | AssertionError
  | KeyError
  | ValueError
  | IndexError

record stream =
  buf :: "byte list"
  pos :: nat

text \<open>\<^verbatim>\<open>file.read(n)\<close>: at most \<open>n\<close> bytes from the position, which advances by the
  number of bytes returned.\<close>

definition read :: "nat \<Rightarrow> stream \<Rightarrow> byte list \<times> stream" where
  "read n s = (let bs = take n (drop (pos s) (buf s))
               in (bs, s\<lparr>pos := pos s + length bs\<rparr>))"

text \<open>Little-endian unsigned value of a byte string.\<close>

fun le_nat :: "byte list \<Rightarrow> nat" where
  "le_nat [] = 0"
| "le_nat (b # bs) = unat b + 256 * le_nat bs"

subsection \<open>Float64 arithmetic\<close>

text \<open>\<open>ilog2 x\<close> is the integer \<open>k\<close> with \<open>2 ^ k \<le> x < 2 ^ (k + 1)\<close>, for \<open>0 < x\<close>.\<close>

definition ilog2 :: "rat \<Rightarrow> int" where
  "ilog2 x = (let (a, b) = quotient_of x; d = bitlen a - bitlen b
              in if 2 powi d \<le> x then d else d - 1)"

definition round_half_even :: "rat \<Rightarrow> int" where
  "round_half_even x =
     (let f = \<lfloor>x\<rfloor>; d = x - of_int f
      in if d < 1 / 2 then f else if 1 / 2 < d then f + 1
         else if even f then f else f + 1)"

text \<open>The float64 nearest to \<open>x\<close>: a significand of 53 bits, ties to even.\<close>

definition fl64 :: "rat \<Rightarrow> rat" where
  "fl64 x = (if x = 0 then 0
             else let e = ilog2 \<bar>x\<bar> - 52
                  in sgn x * of_int (round_half_even (\<bar>x\<bar> / 2 powi e)) * 2 powi e)"

subsection \<open>UTF-8\<close>

definition cont :: "byte \<Rightarrow> bool" where
  "cont b = (0x80 \<le> b \<and> b \<le> 0xBF)"

text \<open>Well-formed UTF-8 as \<^verbatim>\<open>bytes.decode('utf-8')\<close> accepts it: no overlong forms,
  no surrogates, nothing above U+10FFFF.\<close>

fun utf8_valid :: "byte list \<Rightarrow> bool" where
  "utf8_valid [] = True"
| "utf8_valid (b0 # bs) =
     (if b0 \<le> 0x7F then utf8_valid bs
      else if 0xC2 \<le> b0 \<and> b0 \<le> 0xDF then
        (case bs of b1 # r \<Rightarrow> cont b1 \<and> utf8_valid r | _ \<Rightarrow> False)
      else if 0xE0 \<le> b0 \<and> b0 \<le> 0xEF then
        (case bs of b1 # b2 # r \<Rightarrow>
           (if b0 = 0xE0 then 0xA0 \<le> b1 \<and> b1 \<le> 0xBF
            else if b0 = 0xED then 0x80 \<le> b1 \<and> b1 \<le> 0x9F
            else cont b1) \<and> cont b2 \<and> utf8_valid r
         | _ \<Rightarrow> False)
      else if 0xF0 \<le> b0 \<and> b0 \<le> 0xF4 then
        (case bs of b1 # b2 # b3 # r \<Rightarrow>
           (if b0 = 0xF0 then 0x90 \<le> b1 \<and> b1 \<le> 0xBF
            else if b0 = 0xF4 then 0x80 \<le> b1 \<and> b1 \<le> 0x8F
            else cont b1) \<and> cont b2 \<and> cont b3 \<and> utf8_valid r
         | _ \<Rightarrow> False)
      else False)"

definition decode_utf8 :: "byte list \<Rightarrow> error + string" where
  "decode_utf8 bs = (if utf8_valid bs then Inr (map (\<lambda>b. char_of (unat b)) bs)
                     else Inl UnicodeDecodeError)"

subsection \<open>\<^verbatim>\<open>_readheader\<close>\<close>

text \<open>The format characters that occur in the two format strings of the module:
  \<^verbatim>\<open>*\<close>, \<^verbatim>\<open>T\<close>, and the \<^verbatim>\<open>struct\<close> codes \<^verbatim>\<open>Q\<close>, \<^verbatim>\<open>L\<close>, \<^verbatim>\<open>?\<close> and \<^verbatim>\<open>d\<close>.\<close>

datatype fmtchar = Fmt_str | Fmt_T | Fmt_Q | Fmt_L | Fmt_bool | Fmt_d

datatype field =
    Str_val string
  | Time_val int
  | Int_val nat
  | Bool_val bool
  | Float_val "64 word"

text \<open>\<^verbatim>\<open>struct.calcsize('<' + f)\<close>: standard sizes, no alignment. (\<^verbatim>\<open>_readheader\<close>
  handles \<open>Fmt_str\<close> and \<open>Fmt_T\<close> before it asks for a size; the value there is not
  used.)\<close>

fun calcsize :: "fmtchar \<Rightarrow> nat" where
  "calcsize Fmt_Q = 8"
| "calcsize Fmt_L = 4"
| "calcsize Fmt_bool = 1"
| "calcsize Fmt_d = 8"
| "calcsize Fmt_str = 0"
| "calcsize Fmt_T = 0"

text \<open>\<^verbatim>\<open>struct.unpack('<' + f, bs)[0]\<close>: \<^verbatim>\<open>struct.error\<close> unless \<open>bs\<close> has exactly
  the size of the format. (\<open>Fmt_str\<close> and \<open>Fmt_T\<close> never reach it.)\<close>

fun unpack :: "fmtchar \<Rightarrow> byte list \<Rightarrow> error + field" where
  "unpack Fmt_Q bs = (if length bs \<noteq> 8 then Inl StructError else Inr (Int_val (le_nat bs)))"
| "unpack Fmt_L bs = (if length bs \<noteq> 4 then Inl StructError else Inr (Int_val (le_nat bs)))"
| "unpack Fmt_bool bs = (if length bs \<noteq> 1 then Inl StructError else Inr (Bool_val (hd bs \<noteq> 0)))"
| "unpack Fmt_d bs = (if length bs \<noteq> 8 then Inl StructError
                      else Inr (Float_val (word_of_nat (le_nat bs))))"
| "unpack f bs = Inl StructError"

text \<open>\<^verbatim>\<open>a / b\<close> on non-negative Python integers: the float64 nearest to the quotient.\<close>

definition truediv :: "nat \<Rightarrow> nat \<Rightarrow> rat" where
  "truediv a b = fl64 (of_nat a / of_nat b)"

text \<open>\<^verbatim>\<open>datetime.datetime(1601, 1, 1) + datetime.timedelta(microseconds = x)\<close> for a
  float \<open>x \<ge> 0\<close>: the timedelta rounds \<open>x\<close> to a whole number of microseconds, ties
  to even; the sum raises \<^verbatim>\<open>OverflowError\<close> beyond 9999-12-31 23:59:59.999999, which
  is 265046774399999999 microseconds after the epoch.\<close>

definition datetime_max :: int where
  "datetime_max = 265046774399999999"

definition epoch_plus_microseconds :: "rat \<Rightarrow> error + int" where
  "epoch_plus_microseconds x =
     (let us = round_half_even x
      in if us \<le> datetime_max then Inr us else Inl OverflowError)"

fun readfield :: "fmtchar \<Rightarrow> stream \<Rightarrow> error + (field \<times> stream)" where
  "readfield Fmt_str s =
     (let (b4, s1) = read 4 s in
      if length b4 \<noteq> 4 then Inl StructError
      else let strlen = le_nat b4; (bs, s2) = read strlen s1 in
        case decode_utf8 bs of
          Inl e \<Rightarrow> Inl e
        | Inr str \<Rightarrow> Inr (Str_val str, s2))"
| "readfield Fmt_T s =
     (let (b8, s1) = read 8 s in
      if length b8 \<noteq> 8 then Inl StructError
      else let timeval = le_nat b8 in
        case epoch_plus_microseconds (truediv timeval 10) of
          Inl e \<Rightarrow> Inl e
        | Inr dt \<Rightarrow> Inr (Time_val dt, s1))"
| "readfield f s =
     (let fieldlength = calcsize f; (bs, s1) = read fieldlength s in
      case unpack f bs of
        Inl e \<Rightarrow> Inl e
      | Inr v \<Rightarrow> Inr (v, s1))"

fun readheader :: "stream \<Rightarrow> fmtchar list \<Rightarrow> error + (field list \<times> stream)" where
  "readheader s [] = Inr ([], s)"
| "readheader s (f # fs) =
     (case readfield f s of
        Inl e \<Rightarrow> Inl e
      | Inr (v, s1) \<Rightarrow>
          (case readheader s1 fs of
             Inl e \<Rightarrow> Inl e
           | Inr (vs, s2) \<Rightarrow> Inr (v # vs, s2)))"

subsection \<open>The \<^verbatim>\<open>Channel\<close> class\<close>

text \<open>The numpy scalar types of the table \<^verbatim>\<open>DATATYPES\<close>, with their sizes in
  bytes. (\<^verbatim>\<open>np.bool\<close> and \<^verbatim>\<open>np.bool8\<close> both name the one-byte boolean type,
  \<^verbatim>\<open>np.byte\<close> is \<^verbatim>\<open>np.int8\<close>.)\<close>

datatype dtype =
    np_float64 | np_float32
  | np_uint64 | np_uint32 | np_uint16 | np_uint8
  | np_int64 | np_int32 | np_int16 | np_int8
  | np_bool

fun itemsize :: "dtype \<Rightarrow> nat" where
  "itemsize np_float64 = 8"
| "itemsize np_float32 = 4"
| "itemsize np_uint64 = 8"
| "itemsize np_uint32 = 4"
| "itemsize np_uint16 = 2"
| "itemsize np_uint8 = 1"
| "itemsize np_int64 = 8"
| "itemsize np_int32 = 4"
| "itemsize np_int16 = 2"
| "itemsize np_int8 = 1"
| "itemsize np_bool = 1"

definition DATATYPES :: "(string \<times> dtype) list" where
  "DATATYPES =
    [(''REAL64'', np_float64),
     (''REAL32'', np_float32),
     (''UINT64'', np_uint64),
     (''UINT32'', np_uint32),
     (''UINT16'', np_uint16),
     (''UINT8'', np_uint8),
     (''INT64'', np_int64),
     (''INT32'', np_int32),
     (''INT16'', np_int16),
     (''INT8'', np_int8),
     (''BIT'', np_bool),
     (''BIT8'', np_bool),
     (''BITARR8'', np_int8),
     (''BITARR16'', np_int16),
     (''BITARR32'', np_int32)]"

text \<open>
  Arrays live in a store, so that aliasing is visible: an address is an index into the
  list of allocated arrays, and allocation appends. Three kinds of array occur:
  \<^item> \<open>Mapped\<close>: the read-only structured array that \<^verbatim>\<open>np.memmap\<close> lays over the data
    file, one record \<open>(Timestamp, Values)\<close> per sample, the value kept as its bytes;
  \<^item> \<open>Owned\<close>: an array of values with memory of its own, each value kept as its bytes;
  \<^item> \<open>Float64s\<close>: an array of float64 with memory of its own.
\<close>

type_synonym sample = "32 word \<times> byte list"

datatype ndarray =
    Mapped dtype "sample list"
  | Owned dtype "byte list list"
  | Float64s "rat list"

type_synonym addr = nat

type_synonym heap = "ndarray list"

definition alloc :: "ndarray \<Rightarrow> heap \<Rightarrow> addr \<times> heap" where
  "alloc a h = (length h, h @ [a])"

text \<open>
  \<^verbatim>\<open>np.memmap(file, [('Timestamp', np.uint32), ('Values', dt)], 'r', offset, (n,))\<close>:
  \<open>n\<close> packed records of \<open>4 + itemsize dt\<close> bytes from byte \<open>offset\<close> of the file, on a
  little-endian machine. The mapping raises \<^verbatim>\<open>OverflowError\<close> when the offset, the
  number of records or the end of the region is no signed 64-bit integer, and
  \<^verbatim>\<open>ValueError\<close> when the region does not lie within the file or starts at or after
  its end (so also when the file is empty).
\<close>

definition memmap :: "byte list \<Rightarrow> dtype \<Rightarrow> nat \<Rightarrow> nat \<Rightarrow> error + sample list" where
  "memmap file dt offset n =
     (let w = 4 + itemsize dt in
      if 2 ^ 63 \<le> offset \<or> 2 ^ 63 \<le> n \<or> 2 ^ 63 \<le> offset + n * w then Inl OverflowError
      else if length file < offset + n * w \<or> length file \<le> offset then Inl ValueError
      else Inr (map (\<lambda>i. let r = take w (drop (offset + i * w) file)
                          in (word_of_nat (le_nat (take 4 r)), drop 4 r)) [0..<n]))"

record channel =
  time_cache :: "rat list option"
  StartTime :: int
  Name :: string
  NetId :: string
  Port :: nat
  SymbolBased :: bool
  SymbolName :: string
  Comment :: string
  IndexGroup :: nat
  IndexOffset :: nat
  DataType :: string
  DataTypeId :: nat
  VariableSize :: nat
  SamplesInFile :: nat
  DataInFile :: nat
  FileStartPosition :: nat
  Offset :: "64 word"
  Scalefactor :: "64 word"
  Bitmask :: nat
  SampleTime :: rat
  Data :: addr

text \<open>The fields of a channel that are views of its mapped array.\<close>

definition Timestamp :: "heap \<Rightarrow> channel \<Rightarrow> 32 word list" where
  "Timestamp h ch = (case h ! Data ch of Mapped dt rs \<Rightarrow> map fst rs | _ \<Rightarrow> [])"

text \<open>\<open>Values h ch\<close> is what the view \<^verbatim>\<open>self.Values\<close> shows: the element type and the
  elements of the second column of the mapped array.\<close>

definition Values :: "heap \<Rightarrow> channel \<Rightarrow> ndarray" where
  "Values h ch = (case h ! Data ch of Mapped dt rs \<Rightarrow> Owned dt (map snd rs) | a \<Rightarrow> a)"

text \<open>A channel of the store: its \<^verbatim>\<open>Data\<close> is an allocated mapped array.\<close>

definition channel_ok :: "heap \<Rightarrow> channel \<Rightarrow> bool" where
  "channel_ok h ch = (Data ch < length h \<and> (case h ! Data ch of Mapped dt rs \<Rightarrow> True | _ \<Rightarrow> False))"

text \<open>The values that \<^verbatim>\<open>_readheader\<close> returns are typed by the format; these
  projections read them.\<close>

fun int_of :: "field \<Rightarrow> nat" where
  "int_of (Int_val n) = n"
| "int_of v = 0"

fun str_of :: "field \<Rightarrow> string" where
  "str_of (Str_val s) = s"
| "str_of v = []"

fun bool_of :: "field \<Rightarrow> bool" where
  "bool_of (Bool_val b) = b"
| "bool_of v = False"

fun float_of :: "field \<Rightarrow> 64 word" where
  "float_of (Float_val w) = w"
| "float_of v = 0"

fun time_of :: "field \<Rightarrow> int" where
  "time_of (Time_val t) = t"
| "time_of v = 0"

text \<open>The format string \<^verbatim>\<open>'Q**LQ?**QQ*LLQQQddQ'\<close> of a channel header.\<close>

definition channel_format :: "fmtchar list" where
  "channel_format =
     [Fmt_Q, Fmt_str, Fmt_str, Fmt_L, Fmt_Q, Fmt_bool, Fmt_str, Fmt_str, Fmt_Q, Fmt_Q,
      Fmt_str, Fmt_L, Fmt_L, Fmt_Q, Fmt_Q, Fmt_Q, Fmt_d, Fmt_d, Fmt_Q]"

text \<open>
  \<^verbatim>\<open>Channel.__init__(self, headerfile, file, starttime)\<close>. The result is the channel,
  the header stream after the record and the store with the mapped array.
  \<^verbatim>\<open>100e-9\<close> is the float64 nearest to \<open>1 / 10 ^ 7\<close>.
\<close>

definition Channel_init ::
  "stream \<Rightarrow> byte list \<Rightarrow> int \<Rightarrow> heap \<Rightarrow> error + (channel \<times> stream \<times> heap)" where
  "Channel_init headerfile file starttime h =
     (let startpos = pos headerfile in
      case readheader headerfile channel_format of
        Inl e \<Rightarrow> Inl e
      | Inr (fs, headerfile1) \<Rightarrow>
          let headersize = int_of (fs ! 0);
              sampleTime = int_of (fs ! 4);
              variableSize = int_of (fs ! 12);
              samplesInFile = int_of (fs ! 13);
              dataInFile = int_of (fs ! 14);
              fileStartPosition = int_of (fs ! 15)
          in
          if int (pos headerfile1) - int startpos \<noteq> int headersize then
            Inl (IOError ''Error reading file: channel header size mismatch'')
          else if dataInFile \<noteq> (variableSize + 4) * samplesInFile then Inl AssertionError
          else
            (case map_of DATATYPES (str_of (fs ! 10)) of
               None \<Rightarrow> Inl KeyError
             | Some dt \<Rightarrow>
                 (case memmap file dt fileStartPosition samplesInFile of
                    Inl e \<Rightarrow> Inl e
                  | Inr rs \<Rightarrow>
                      let (a, h1) = alloc (Mapped dt rs) h in
                      Inr (\<lparr>time_cache = None,
                            StartTime = starttime,
                            Name = str_of (fs ! 1),
                            NetId = str_of (fs ! 2),
                            Port = int_of (fs ! 3),
                            SymbolBased = bool_of (fs ! 5),
                            SymbolName = str_of (fs ! 6),
                            Comment = str_of (fs ! 7),
                            IndexGroup = int_of (fs ! 8),
                            IndexOffset = int_of (fs ! 9),
                            DataType = str_of (fs ! 10),
                            DataTypeId = int_of (fs ! 11),
                            VariableSize = variableSize,
                            SamplesInFile = samplesInFile,
                            DataInFile = dataInFile,
                            FileStartPosition = fileStartPosition,
                            Offset = float_of (fs ! 16),
                            Scalefactor = float_of (fs ! 17),
                            Bitmask = int_of (fs ! 18),
                            SampleTime = fl64 (fl64 (of_nat sampleTime) * fl64 (100 / 10 ^ 9)),
                            Data = a\<rparr>, headerfile1, h1))))"

subsection \<open>The \<^verbatim>\<open>Time\<close> property\<close>

text \<open>\<^verbatim>\<open>np.diff\<close> of a uint32 array: uint32 differences, which wrap.\<close>

fun np_diff :: "32 word list \<Rightarrow> 32 word list" where
  "np_diff (a # b # xs) = (b - a) # np_diff (b # xs)"
| "np_diff xs = []"

text \<open>\<^verbatim>\<open>np.cumsum(dt, out = ...)\<close> into a float64 array: the sums are formed in
  float64, the first element is \<open>dt[0]\<close> itself.\<close>

fun accumulate :: "rat \<Rightarrow> 32 word list \<Rightarrow> rat list" where
  "accumulate acc [] = []"
| "accumulate acc (d # ds) = (let s = fl64 (acc + of_nat (unat d)) in s # accumulate s ds)"

fun np_cumsum :: "32 word list \<Rightarrow> rat list" where
  "np_cumsum [] = []"
| "np_cumsum (d # ds) = of_nat (unat d) # accumulate (of_nat (unat d)) ds"

text \<open>The value of \<^verbatim>\<open>result\<close> before the line \<^verbatim>\<open>result /= 1e7\<close>;
  \<^verbatim>\<open>result[0] = t[0]\<close> raises \<^verbatim>\<open>IndexError\<close> on an empty array.\<close>

definition Time_ticks :: "32 word list \<Rightarrow> error + rat list" where
  "Time_ticks t =
     (let dt = np_diff t in
      case t of
        [] \<Rightarrow> Inl IndexError
      | t0 # ts \<Rightarrow> Inr (of_nat (unat t0) # np_cumsum dt))"

text \<open>The property: computed at the first request and cached in \<^verbatim>\<open>self._time\<close>.
  (The cache holds the array by value: nothing here writes to a time axis.)\<close>

definition Time :: "heap \<Rightarrow> channel \<Rightarrow> error + (rat list \<times> channel)" where
  "Time h ch =
     (case time_cache ch of
        Some r \<Rightarrow> Inr (r, ch)
      | None \<Rightarrow>
          (case Time_ticks (Timestamp h ch) of
             Inl e \<Rightarrow> Inl e
           | Inr result \<Rightarrow>
               let result = map (\<lambda>x. fl64 (x / 10 ^ 7)) result
               in Inr (result, ch\<lparr>time_cache := Some result\<rparr>)))"

subsection \<open>\<^verbatim>\<open>interpolate\<close>\<close>

text \<open>
  \<^verbatim>\<open>np.all(t == self.Time)\<close> for a one-dimensional \<open>t\<close>: the comparison is element by
  element and broadcasts an array of one element; on shapes that do not fit, the
  comparison is \<^verbatim>\<open>False\<close> (the numpy versions that still have \<^verbatim>\<open>np.bool8\<close> and
  \<^verbatim>\<open>np.bool\<close>, which the class needs, do so).
\<close>

definition np_all_eq :: "rat list \<Rightarrow> rat list \<Rightarrow> bool" where
  "np_all_eq t tm =
     (if length t = length tm then list_all2 (=) t tm
      else if length t = 1 then list_all (\<lambda>x. hd t = x) tm
      else if length tm = 1 then list_all (\<lambda>x. x = hd tm) t
      else False)"

text \<open>
  \<^verbatim>\<open>interpolate(self, t)\<close>. \<^verbatim>\<open>np.interp\<close> is a parameter: \<open>interp t xp fp\<close> is the
  new array of interpolated values or an error. \<^verbatim>\<open>np.array(self.Values)\<close> allocates
  an array and copies the values into it. The result is the address of the returned
  array, the channel (its cache filled) and the store.
\<close>

definition interpolate ::
  "(rat list \<Rightarrow> rat list \<Rightarrow> ndarray \<Rightarrow> error + rat list) \<Rightarrow>
   heap \<Rightarrow> channel \<Rightarrow> rat list \<Rightarrow> error + (addr \<times> channel \<times> heap)" where
  "interpolate interp h ch t =
     (case Time h ch of
        Inl e \<Rightarrow> Inl e
      | Inr (tm, ch1) \<Rightarrow>
          if np_all_eq t tm then
            (let (a, h1) = alloc (Values h ch1) h in Inr (a, ch1, h1))
          else
            (case Time h ch1 of
               Inl e \<Rightarrow> Inl e
             | Inr (tm2, ch2) \<Rightarrow>
                 (case interp t tm2 (Values h ch2) of
                    Inl e \<Rightarrow> Inl e
                  | Inr ys \<Rightarrow> let (a, h1) = alloc (Float64s ys) h in Inr (a, ch2, h1))))"

text \<open>A write through an array: the memory of the array at address \<open>a\<close> gets the
  contents \<open>x\<close>; no other array of the store changes.\<close>

definition store :: "addr \<Rightarrow> ndarray \<Rightarrow> heap \<Rightarrow> heap" where
  "store a x h = h[a := x]"

subsection \<open>The \<^verbatim>\<open>SVBFile\<close> class\<close>

text \<open>The format string \<^verbatim>\<open>'*TTL'\<close> of the file header.\<close>

definition file_format :: "fmtchar list" where
  "file_format = [Fmt_str, Fmt_T, Fmt_T, Fmt_L]"

text \<open>\<^verbatim>\<open>self._channels[ch.Name] = ch\<close>: a dictionary keeps the order of first
  insertion; a key that is present gets the new value in place.\<close>

fun dict_set :: "('k \<times> 'v) list \<Rightarrow> 'k \<Rightarrow> 'v \<Rightarrow> ('k \<times> 'v) list" where
  "dict_set [] k v = [(k, v)]"
| "dict_set ((k', v') # kvs) k v =
     (if k' = k then (k, v) # kvs else (k', v') # dict_set kvs k v)"

record svbfile =
  channels :: "(string \<times> channel) list"
  file_Name :: string
  file_StartTime :: int
  EndTime :: int
  ChannelCount :: nat

text \<open>The loop \<^verbatim>\<open>for i in range(self.ChannelCount)\<close>.\<close>

fun read_channels ::
  "nat \<Rightarrow> stream \<Rightarrow> byte list \<Rightarrow> int \<Rightarrow> heap \<Rightarrow> (string \<times> channel) list \<Rightarrow>
   error + ((string \<times> channel) list \<times> stream \<times> heap)" where
  "read_channels 0 header file starttime h chans = Inr (chans, header, h)"
| "read_channels (Suc n) header file starttime h chans =
     (case Channel_init header file starttime h of
        Inl e \<Rightarrow> Inl e
      | Inr (ch, header1, h1) \<Rightarrow>
          read_channels n header1 file starttime h1 (dict_set chans (Name ch) ch))"

text \<open>
  \<^verbatim>\<open>SVBFile.__init__(self, filename)\<close>, on the bytes of the file that \<^verbatim>\<open>open\<close>
  returns. \<^verbatim>\<open>file.read(headerSize - 8)\<close> reads to the end of the file for the
  argument \<open>-1\<close>, raises \<^verbatim>\<open>ValueError\<close> for a smaller one and \<^verbatim>\<open>OverflowError\<close> for
  one beyond the largest size of a \<^verbatim>\<open>bytes\<close> object, \<open>2 ^ 63 - 34\<close>; below that, memory
  is not a limit (a \<^verbatim>\<open>MemoryError\<close> is not modelled).
\<close>

definition SVBFile_init :: "byte list \<Rightarrow> heap \<Rightarrow> error + (svbfile \<times> heap)" where
  "SVBFile_init bytes h =
     (let (b8, file1) = read 8 \<lparr>buf = bytes, pos = 0\<rparr> in
      if length b8 \<noteq> 8 then Inl StructError
      else let headerSize = le_nat b8 in
        if headerSize < 7 then Inl ValueError
        else if 2 ^ 63 - 33 \<le> headerSize - 8 then Inl OverflowError
        else
          let n = (if headerSize = 7 then length bytes else headerSize - 8);
              header = \<lparr>buf = fst (read n file1), pos = 0\<rparr>
          in
          case readheader header file_format of
            Inl e \<Rightarrow> Inl e
          | Inr (fs, header1) \<Rightarrow>
              (case read_channels (int_of (fs ! 3)) header1 bytes (time_of (fs ! 1)) h [] of
                 Inl e \<Rightarrow> Inl e
               | Inr (chans, header2, h1) \<Rightarrow>
                   if fst (read 1 header2) \<noteq> [] then
                     Inl (IOError ''Error reading file: file header size mismatch'')
                   else
                     Inr (\<lparr>channels = chans,
                           file_Name = str_of (fs ! 0),
                           file_StartTime = time_of (fs ! 1),
                           EndTime = time_of (fs ! 2),
                           ChannelCount = int_of (fs ! 3)\<rparr>, h1)))"

subsection \<open>The time axis as the specification describes it\<close>

text \<open>
  Following the specification's words, not the source: the first differences
  \<open>dt[i] = raw[i+1] - raw[i]\<close> are taken modulo \<open>2 ^ 32\<close>, \<open>result[0] = raw[0]\<close> and
  \<open>result[i] = result[i-1] + dt[i-1]\<close> for every \<open>i \<ge> 1\<close>. \<open>spec_ticks\<close> is this sequence
  before the division by \<open>1e7\<close>.
\<close>

fun running_sum :: "rat \<Rightarrow> 32 word list \<Rightarrow> rat list" where
  "running_sum prev [] = []"
| "running_sum prev (d # ds) =
     (prev + of_nat (unat d)) # running_sum (prev + of_nat (unat d)) ds"

definition spec_ticks :: "32 word list \<Rightarrow> rat list" where
  "spec_ticks raw =
     (case raw of
        [] \<Rightarrow> []
      | r0 # rs \<Rightarrow> of_nat (unat r0) # running_sum (of_nat (unat r0)) (np_diff raw))"

subsection \<open>A file with one channel\<close>

text \<open>
  A complete file of 162 bytes: the header region of 152 bytes (file name \<^verbatim>\<open>f\<close>, start
  and end time 10 and 20 ticks, one channel) and two samples \<open>(10, 1)\<close> and \<open>(15, 2)\<close> of
  type \<^verbatim>\<open>UINT8\<close>. The channel record of 119 bytes starts at byte 33; its offset
  calibration is \<open>0.0\<close> and its scale calibration \<open>1.0\<close>.
\<close>

definition example_file :: "byte list" where
  "example_file =
     [152, 0, 0, 0, 0, 0, 0, 0, 1, 0, 0, 0, 102, 10, 0, 0, 0, 0, 0, 0, 0, 20, 0, 0, 0, 0,
      0, 0, 0, 1, 0, 0, 0, 119, 0, 0, 0, 0, 0, 0, 0, 1, 0, 0, 0, 97, 0, 0, 0, 0, 7, 0, 0,
      0, 16, 39, 0, 0, 0, 0, 0, 0, 1, 0, 0, 0, 0, 0, 0, 0, 0, 1, 0, 0, 0, 0, 0, 0, 0, 2, 0,
      0, 0, 0, 0, 0, 0, 5, 0, 0, 0, 85, 73, 78, 84, 56, 3, 0, 0, 0, 1, 0, 0, 0, 2, 0, 0, 0,
      0, 0, 0, 0, 10, 0, 0, 0, 0, 0, 0, 0, 152, 0, 0, 0, 0, 0, 0, 0, 0, 0, 0, 0, 0, 0, 0,
      0, 0, 0, 0, 0, 0, 0, 240, 63, 255, 0, 0, 0, 0, 0, 0, 0, 10, 0, 0, 0, 1, 15, 0, 0, 0, 2]"

text \<open>The header stream when \<^verbatim>\<open>SVBFile.__init__\<close> calls \<^verbatim>\<open>Channel\<close>.\<close>

definition example_header :: stream where
  "example_header = \<lparr>buf = take 144 (drop 8 example_file), pos = 25\<rparr>"

definition example_channel :: channel where
  "example_channel =
     \<lparr>time_cache = None, StartTime = 1, Name = ''a'', NetId = [], Port = 7,
      SymbolBased = True, SymbolName = [], Comment = [], IndexGroup = 1, IndexOffset = 2,
      DataType = ''UINT8'', DataTypeId = 3, VariableSize = 1, SamplesInFile = 2,
      DataInFile = 10, FileStartPosition = 152, Offset = 0, Scalefactor = 0x3FF0000000000000,
      Bitmask = 255, SampleTime = fl64 (fl64 (of_nat 10000) * fl64 (100 / 10 ^ 9)),
      Data = 0\<rparr>"

definition example_heap :: heap where
  "example_heap = [Mapped np_uint8 [(10, [1]), (15, [2])]]"

text \<open>The same header with the field \<^verbatim>\<open>DataInFile\<close> changed from 10 to 11, and with
  the field \<^verbatim>\<open>headersize\<close> changed from 119 to 120.\<close>

definition bad_data_header :: stream where
  "bad_data_header =
     \<lparr>buf = take 104 (buf example_header) @ [11] @ drop 105 (buf example_header), pos = 25\<rparr>"

definition bad_size_header :: stream where
  "bad_size_header =
     \<lparr>buf = take 25 (buf example_header) @ [120] @ drop 26 (buf example_header), pos = 25\<rparr>"

section \<open>Properties\<close>

subsection \<open>Float64 rounding\<close>

lemma round_half_even_of_int: "round_half_even (of_int m) = m"
  by (simp add: round_half_even_def)

lemma ilog2_of_nat:
  assumes "0 < n"
  shows "ilog2 (of_nat n) = bitlen (int n) - 1"
proof -
  have q: "quotient_of (of_nat n :: rat) = (int n, 1)"
    using quotient_of_int [of "int n"] by simp
  have b1: "bitlen 1 = 1" by (simp add: bitlen_alt_def)
  have pos: "1 \<le> bitlen (int n)" using assms by (simp add: bitlen_alt_def)
  have "(2::int) ^ nat (bitlen (int n) - 1) \<le> int n"
    using bitlen_bounds [of "int n"] assms by simp
  then have "(of_int ((2::int) ^ nat (bitlen (int n) - 1)) :: rat) \<le> of_int (int n)"
    by (simp only: of_int_le_iff)
  then have "(2::rat) powi (bitlen (int n) - 1) \<le> of_nat n"
    using pos by (simp add: power_int_def)
  then show ?thesis
    by (simp add: ilog2_def q b1)
qed

lemma bitlen_le_53:
  assumes "0 < n" and "n < 2 ^ 53"
  shows "bitlen (int n) \<le> 53"
proof -
  have "(2::int) ^ nat (bitlen (int n) - 1) \<le> int n"
    using bitlen_bounds [of "int n"] assms by simp
  also have "int n < 2 ^ 53" using assms by simp
  finally have "(2::int) ^ nat (bitlen (int n) - 1) < 2 ^ 53" .
  then have "nat (bitlen (int n) - 1) < 53"
    by (simp only: power_strict_increasing_iff one_less_numeral_iff semiring_norm)
  then show ?thesis by simp
qed

text \<open>Every natural number below \<open>2 ^ 53\<close> is a float64.\<close>

lemma fl64_of_nat:
  assumes "n < 2 ^ 53"
  shows "fl64 (of_nat n) = of_nat n"
proof (cases "n = 0")
  case True
  then show ?thesis by (simp add: fl64_def)
next
  case False
  then have n: "0 < n" by simp
  define k where "k = nat (53 - bitlen (int n))"
  have e: "ilog2 (of_nat n) - 52 = - int k"
    using bitlen_le_53 [OF n assms] by (simp add: ilog2_of_nat [OF n] k_def)
  have p: "(2::rat) powi (- int k) = inverse (2 ^ k)"
    by (simp add: power_int_minus)
  have m: "(of_nat n :: rat) / inverse (2 ^ k) = of_int (int n * 2 ^ k)"
    by (simp add: divide_inverse)
  have "fl64 (of_nat n) = of_int (int n * 2 ^ k) * inverse (2 ^ k)"
    using n by (simp add: fl64_def e p m round_half_even_of_int Let_def del: of_int_mult of_int_power)
  also have "\<dots> = of_nat n" by simp
  finally show ?thesis .
qed

lemma fl64_2_53: "fl64 (2 ^ 53) = 2 ^ 53"
  by code_simp

lemma fl64_11: "fl64 11 = 11"
  by code_simp

lemma fl64_16: "fl64 16 = 16"
  by code_simp

lemma fl64_2020_odd: "fl64 (132223104000000010 / 10) = 13222310400000000"
  by code_simp

lemma fl64_2020_even: "fl64 13222310400000000 = 13222310400000000"
  by code_simp

lemma fl64_seconds: "fl64 (5 / 10 ^ 7) < fl64 (10 / 10 ^ 7)"
  by code_simp

subsection \<open>The example channel\<close>

lemma example_Timestamp: "Timestamp example_heap example_channel = [10, 15]"
  by (simp add: Timestamp_def example_heap_def example_channel_def)

lemma example_Time:
  "Time example_heap example_channel =
     Inr ([fl64 (10 / 10 ^ 7), fl64 (5 / 10 ^ 7)],
          example_channel\<lparr>time_cache := Some [fl64 (10 / 10 ^ 7), fl64 (5 / 10 ^ 7)]\<rparr>)"
proof -
  have "time_cache example_channel = None" by (simp add: example_channel_def)
  then show ?thesis by (simp add: Time_def example_Timestamp Time_ticks_def Let_def)
qed

subsection \<open>The time axis\<close>

text \<open>
  Claim C1. The specification describes the time axis as \<open>result[0] = raw[0]\<close> and
  \<open>result[i] = result[i-1] + dt[i-1]\<close> for every \<open>i \<ge> 1\<close>, divided by \<open>1e7\<close>. The source
  writes \<open>raw[0]\<close> into \<open>result[0]\<close> and the running sum of the differences alone into
  \<open>result[1:]\<close>, so \<open>result[1]\<close> is \<open>dt[0]\<close>, not \<open>raw[0] + dt[0]\<close>. For the example
  channel, whose raw timestamps are 10 and 15, the ticks of the source are 10 and 5,
  those of the specification 10 and 15.
\<close>

theorem Time_drops_first_timestamp:
  "Timestamp example_heap example_channel = [10, 15]
   \<and> Time_ticks [10, 15] = Inr [10, 5]
   \<and> spec_ticks [10, 15] = [10, 15]"
  by (simp add: example_Timestamp Time_ticks_def spec_ticks_def)

text \<open>
  Claim C2, as stated: for the raw timestamps 4294967290, 4294967295, 5, 10 the ticks
  before the division are 4294967290, 4294967295, 4294967305, 4294967310. The source
  does not compute this list.
\<close>

theorem unwrap_example_counterexample:
  "Time_ticks [4294967290, 4294967295, 5, 10]
     \<noteq> Inr [4294967290, 4294967295, 4294967305, 4294967310]"
  by (simp add: Time_ticks_def)

text \<open>
  Claim C2, amended: for the raw timestamps 4294967290, 4294967295, 5, 10 the wrapping
  differences are 5, 6 and 5; the sequence of ticks has four elements, starts with
  4294967290, and from index 1 on it grows by 6 and by 5, across the wrap between
  index 1 and 2.
\<close>

theorem unwrap_example_increments:
  "np_diff [4294967290, 4294967295, 5, 10] = [5, 6, 5]
   \<and> (case Time_ticks [4294967290, 4294967295, 5, 10] of
        Inr r \<Rightarrow> length r = 4 \<and> r ! 0 = 4294967290 \<and> r ! 2 - r ! 1 = 6 \<and> r ! 3 - r ! 2 = 5
      | Inl e \<Rightarrow> False)"
  by (simp add: Time_ticks_def fl64_11 fl64_16)

text \<open>
  Claim C3. The time axis is claimed to be non-decreasing for every raw sequence. For
  the example channel (raw timestamps 10 and 15, no wrap) the time axis of the source
  has two elements and the second is smaller than the first.
\<close>

theorem Time_not_monotonic:
  "(case Time example_heap example_channel of
      Inr (tm, ch1) \<Rightarrow> length tm = 2 \<and> tm ! 1 < tm ! 0
    | Inl e \<Rightarrow> False)"
  using fl64_seconds by (simp add: example_Time)

subsection \<open>Timestamps of the header\<close>

lemma truediv_2020_odd: "truediv 132223104000000010 10 = 13222310400000000"
  using fl64_2020_odd by (simp add: truediv_def)

text \<open>
  Claim C9. A \<^verbatim>\<open>T\<close> field is claimed to decode, for every tick value \<open>t\<close>, to exactly
  the epoch plus \<open>t / 10\<close> microseconds; the source's comment reads "datetime, coded as
  100ns periods since 1-1-1601". The source forms \<^verbatim>\<open>timeval/10\<close> in float64, whose 53
  bits hold no odd number above \<open>2 ^ 53\<close>: beyond \<open>2 ^ 53\<close> microseconds after the epoch
  (1886-06-05) an odd count of microseconds is lost. The eight bytes below encode
  \<open>t = 132223104000000010\<close>, that is 2020-01-01 00:00:00.000001; the field decodes
  to \<open>13222310400000000\<close> microseconds, 2020-01-01 00:00:00.000000, one microsecond
  less than \<open>t / 10\<close>.
\<close>

theorem timestamp_off_by_one_microsecond:
  "le_nat [10, 0, 5, 105, 54, 192, 213, 1] = 10 * 13222310400000001
   \<and> readfield Fmt_T \<lparr>buf = [10, 0, 5, 105, 54, 192, 213, 1], pos = 0\<rparr>
       = Inr (Time_val 13222310400000000,
              \<lparr>buf = [10, 0, 5, 105, 54, 192, 213, 1], pos = 8\<rparr>)"
  using round_half_even_of_int [of 13222310400000000]
  by (simp add: read_def Let_def truediv_2020_odd epoch_plus_microseconds_def datetime_max_def)

text \<open>
  Where the tick value is ten times a number of microseconds that is a float64 and
  the date is within the range of \<^verbatim>\<open>datetime\<close>, the field decodes exactly: the loss
  above is the only one for whole microseconds.
\<close>

lemma timestamp_exact_if_float64:
  assumes "pos s + 8 \<le> length (buf s)"
    and "le_nat (take 8 (drop (pos s) (buf s))) = 10 * q"
    and "fl64 (of_nat q) = of_nat q" and "int q \<le> datetime_max"
  shows "readfield Fmt_T s = Inr (Time_val (int q), s\<lparr>pos := pos s + 8\<rparr>)"
proof -
  have t: "truediv (10 * q) 10 = of_nat q"
    by (simp add: truediv_def assms(3))
  have r: "round_half_even (of_nat q) = int q"
    using round_half_even_of_int [of "int q"] by simp
  from assms(4) show ?thesis
    using assms(1,2) by (simp add: read_def Let_def t r epoch_plus_microseconds_def)
qed

lemma timestamp_2020_even:
  "readfield Fmt_T \<lparr>buf = [0, 0, 5, 105, 54, 192, 213, 1], pos = 0\<rparr>
     = Inr (Time_val 13222310400000000, \<lparr>buf = [0, 0, 5, 105, 54, 192, 213, 1], pos = 8\<rparr>)"
  using timestamp_exact_if_float64
    [of "\<lparr>buf = [0, 0, 5, 105, 54, 192, 213, 1], pos = 0\<rparr>" 13222310400000000]
    fl64_2020_even
  by (simp add: datetime_max_def)

subsection \<open>The layout of a header\<close>

lemma readfield_Q_iff:
  "readfield Fmt_Q s = Inr (v, s1) \<longleftrightarrow>
     pos s + 8 \<le> length (buf s) \<and> s1 = s\<lparr>pos := pos s + 8\<rparr>
     \<and> v = Int_val (le_nat (take 8 (drop (pos s) (buf s))))"
  by (auto simp: read_def Let_def split: if_splits)

lemma readfield_L_iff:
  "readfield Fmt_L s = Inr (v, s1) \<longleftrightarrow>
     pos s + 4 \<le> length (buf s) \<and> s1 = s\<lparr>pos := pos s + 4\<rparr>
     \<and> v = Int_val (le_nat (take 4 (drop (pos s) (buf s))))"
  by (auto simp: read_def Let_def split: if_splits)

lemma readfield_d_iff:
  "readfield Fmt_d s = Inr (v, s1) \<longleftrightarrow>
     pos s + 8 \<le> length (buf s) \<and> s1 = s\<lparr>pos := pos s + 8\<rparr>
     \<and> v = Float_val (word_of_nat (le_nat (take 8 (drop (pos s) (buf s)))))"
  by (auto simp: read_def Let_def split: if_splits)

lemma readfield_bool_iff:
  "readfield Fmt_bool s = Inr (v, s1) \<longleftrightarrow>
     pos s + 1 \<le> length (buf s) \<and> s1 = s\<lparr>pos := pos s + 1\<rparr>
     \<and> v = Bool_val (hd (take 1 (drop (pos s) (buf s))) \<noteq> 0)"
  by (auto simp: read_def Let_def split: if_splits)

lemma readfield_str:
  assumes "readfield Fmt_str s = Inr (v, s1)"
  shows "s1 = s\<lparr>pos := pos s + 4 + length (str_of v)\<rparr>
       \<and> v = Str_val (str_of v)
       \<and> pos s + 4 \<le> length (buf s)"
  using assms
  by (auto simp: read_def Let_def decode_utf8_def split: if_splits)

lemma readfield_T:
  assumes "readfield Fmt_T s = Inr (v, s1)"
  shows "s1 = s\<lparr>pos := pos s + 8\<rparr> \<and> pos s + 8 \<le> length (buf s)"
  using assms
  by (auto simp: read_def Let_def split: if_splits sum.splits)

lemma readheader_Cons_iff:
  "readheader s (f # fs) = Inr (vs, s2) \<longleftrightarrow>
     (\<exists>v s1 vs'. readfield f s = Inr (v, s1) \<and> readheader s1 fs = Inr (vs', s2) \<and> vs = v # vs')"
  by (auto split: sum.splits)

lemma readheader_append:
  "readheader s (f1 @ f2) =
     (case readheader s f1 of
        Inl e \<Rightarrow> Inl e
      | Inr (xs, s1) \<Rightarrow>
          (case readheader s1 f2 of
             Inl e \<Rightarrow> Inl e
           | Inr (ys, s2) \<Rightarrow> Inr (xs @ ys, s2)))"
  by (induction f1 arbitrary: s) (auto split: sum.splits)

lemma readheader_split:
  assumes "readheader s (f1 @ f2) = Inr (fs, s2)"
  shows "\<exists>xs s1 ys. readheader s f1 = Inr (xs, s1) \<and> readheader s1 f2 = Inr (ys, s2)
           \<and> fs = xs @ ys"
  using assms unfolding readheader_append by (auto split: sum.splits)

lemma readheader_length:
  "readheader s fmt = Inr (vs, s1) \<Longrightarrow> length vs = length fmt"
  by (induction fmt arbitrary: s vs) (auto split: sum.splits)

lemma readfield_buf:
  "readfield f s = Inr (v, s1) \<Longrightarrow> buf s1 = buf s \<and> pos s \<le> pos s1"
  by (cases f) (auto simp: read_def Let_def split: if_splits sum.splits)

lemma readheader_buf:
  "readheader s fmt = Inr (vs, s1) \<Longrightarrow> buf s1 = buf s \<and> pos s \<le> pos s1"
proof (induction fmt arbitrary: s vs)
  case Nil
  then show ?case by simp
next
  case (Cons f fmt)
  from Cons.prems obtain v s' vs' where f: "readfield f s = Inr (v, s')"
    and r: "readheader s' fmt = Inr (vs', s1)"
    by (auto simp: readheader_Cons_iff simp del: readheader.simps)
  from readfield_buf [OF f] Cons.IH [OF r] show ?case by simp
qed

lemma tail_layout:
  assumes "readheader s [Fmt_L, Fmt_L, Fmt_Q, Fmt_Q, Fmt_Q, Fmt_d, Fmt_d, Fmt_Q] = Inr (ys, s1)"
  shows "pos s1 = pos s + 56 \<and> length ys = 8
       \<and> ys ! 0 = Int_val (le_nat (take 4 (drop (pos s) (buf s))))
       \<and> ys ! 1 = Int_val (le_nat (take 4 (drop (pos s + 4) (buf s))))
       \<and> ys ! 2 = Int_val (le_nat (take 8 (drop (pos s + 8) (buf s))))
       \<and> ys ! 5 = Float_val (word_of_nat (le_nat (take 8 (drop (pos s + 32) (buf s)))))
       \<and> ys ! 6 = Float_val (word_of_nat (le_nat (take 8 (drop (pos s + 40) (buf s)))))"
  using assms
  by (auto simp: readheader_Cons_iff readfield_Q_iff readfield_L_iff readfield_d_iff add_ac
           simp del: readheader.simps(2) readfield.simps)

lemma head_layout:
  assumes "readheader s [Fmt_Q, Fmt_str, Fmt_str, Fmt_L] = Inr (xs, s1)"
  shows "length xs = 4
       \<and> xs ! 0 = Int_val (le_nat (take 8 (drop (pos s) (buf s))))
       \<and> xs ! 3 = Int_val (le_nat (take 4
            (drop (pos s + 16 + length (str_of (xs ! 1)) + length (str_of (xs ! 2))) (buf s))))"
  using assms
  by (auto simp: readheader_Cons_iff readfield_Q_iff readfield_L_iff add_ac
           simp del: readheader.simps(2) readfield.simps dest!: readfield_str)


lemma channel_layout:
  assumes "readheader s channel_format = Inr (fs, s1)"
  shows "length fs = 19 \<and> buf s1 = buf s \<and> pos s + 56 \<le> pos s1
       \<and> fs ! 0 = Int_val (le_nat (take 8 (drop (pos s) (buf s))))
       \<and> fs ! 3 = Int_val (le_nat (take 4
            (drop (pos s + 16 + length (str_of (fs ! 1)) + length (str_of (fs ! 2))) (buf s))))
       \<and> fs ! 11 = Int_val (le_nat (take 4 (drop (pos s1 - 56) (buf s))))
       \<and> fs ! 12 = Int_val (le_nat (take 4 (drop (pos s1 - 52) (buf s))))
       \<and> fs ! 13 = Int_val (le_nat (take 8 (drop (pos s1 - 48) (buf s))))
       \<and> fs ! 16 = Float_val (word_of_nat (le_nat (take 8 (drop (pos s1 - 24) (buf s)))))
       \<and> fs ! 17 = Float_val (word_of_nat (le_nat (take 8 (drop (pos s1 - 16) (buf s)))))"
proof -
  have fmt: "channel_format =
      [Fmt_Q, Fmt_str, Fmt_str, Fmt_L]
      @ [Fmt_Q, Fmt_bool, Fmt_str, Fmt_str, Fmt_Q, Fmt_Q, Fmt_str]
      @ [Fmt_L, Fmt_L, Fmt_Q, Fmt_Q, Fmt_Q, Fmt_d, Fmt_d, Fmt_Q]"
    by (simp add: channel_format_def)
  note a = assms [unfolded fmt]
  from readheader_split [OF a] obtain xs s4 r
    where h: "readheader s [Fmt_Q, Fmt_str, Fmt_str, Fmt_L] = Inr (xs, s4)"
      and r: "readheader s4 ([Fmt_Q, Fmt_bool, Fmt_str, Fmt_str, Fmt_Q, Fmt_Q, Fmt_str]
                @ [Fmt_L, Fmt_L, Fmt_Q, Fmt_Q, Fmt_Q, Fmt_d, Fmt_d, Fmt_Q]) = Inr (r, s1)"
      and fs1: "fs = xs @ r"
    by blast
  from readheader_split [OF r] obtain ms s11 ys
    where m: "readheader s4 [Fmt_Q, Fmt_bool, Fmt_str, Fmt_str, Fmt_Q, Fmt_Q, Fmt_str] = Inr (ms, s11)"
      and t: "readheader s11 [Fmt_L, Fmt_L, Fmt_Q, Fmt_Q, Fmt_Q, Fmt_d, Fmt_d, Fmt_Q] = Inr (ys, s1)"
      and r1: "r = ms @ ys"
    by blast
  have fs: "fs = xs @ ms @ ys" using fs1 r1 by simp
  have lx: "length xs = 4" and lm: "length ms = 7" and ly: "length ys = 8"
    using readheader_length [OF h] readheader_length [OF m] readheader_length [OF t] by simp_all
  have b4: "buf s4 = buf s" "pos s \<le> pos s4" using readheader_buf [OF h] by simp_all
  have b11: "buf s11 = buf s" "pos s \<le> pos s11"
    using readheader_buf [OF m] b4 by simp_all
  have p: "pos s1 = pos s11 + 56" using tail_layout [OF t] by simp
  have b1: "buf s1 = buf s" using readheader_buf [OF t] b11 by simp
  from head_layout [OF h] tail_layout [OF t] show ?thesis
    by (simp add: fs nth_append lx lm ly b4 b11 b1 p add.commute)
qed

lemma Channel_init_Inr:
  assumes "Channel_init headerfile file starttime h = Inr (ch, headerfile1, h1)"
  shows "\<exists>fs dt rs.
      readheader headerfile channel_format = Inr (fs, headerfile1)
    \<and> int (pos headerfile1) - int (pos headerfile) = int (int_of (fs ! 0))
    \<and> int_of (fs ! 14) = (int_of (fs ! 12) + 4) * int_of (fs ! 13)
    \<and> map_of DATATYPES (str_of (fs ! 10)) = Some dt
    \<and> memmap file dt (int_of (fs ! 15)) (int_of (fs ! 13)) = Inr rs
    \<and> h1 = h @ [Mapped dt rs] \<and> Data ch = length h \<and> time_cache ch = None
    \<and> Name ch = str_of (fs ! 1) \<and> NetId ch = str_of (fs ! 2) \<and> Port ch = int_of (fs ! 3)
    \<and> DataTypeId ch = int_of (fs ! 11) \<and> VariableSize ch = int_of (fs ! 12)
    \<and> SamplesInFile ch = int_of (fs ! 13) \<and> DataInFile ch = int_of (fs ! 14)
    \<and> Offset ch = float_of (fs ! 16) \<and> Scalefactor ch = float_of (fs ! 17)"
  using assms
  by (auto simp: Channel_init_def Let_def alloc_def
           split: sum.splits if_splits option.splits prod.splits)


lemma readfield_error:
  "readfield f s = Inl e \<Longrightarrow> e = StructError \<or> e = UnicodeDecodeError \<or> e = OverflowError"
  by (cases f)
    (auto simp: read_def Let_def decode_utf8_def epoch_plus_microseconds_def
          split: if_splits sum.splits prod.splits)

lemma readheader_error:
  "readheader s fmt = Inl e \<Longrightarrow> e = StructError \<or> e = UnicodeDecodeError \<or> e = OverflowError"
proof (induction fmt arbitrary: s)
  case Nil
  then show ?case by simp
next
  case (Cons f fmt)
  show ?case
  proof (cases "readfield f s")
    case (Inl e')
    with Cons.prems have "e' = e" by simp
    with Inl show ?thesis using readfield_error by blast
  next
    case (Inr p)
    obtain v s1 where p: "p = (v, s1)" by (cases p)
    with Inr Cons.prems have "readheader s1 fmt = Inl e"
      by (auto split: sum.splits)
    then show ?thesis by (rule Cons.IH)
  qed
qed

lemma memmap_error:
  "memmap file dt offset n = Inl e \<Longrightarrow> e = ValueError \<or> e = OverflowError"
  by (auto simp: memmap_def Let_def split: if_splits)

subsection \<open>Decoding the example\<close>

lemmas eval_simps =
  read_def decode_utf8_def char_of_def bit_Suc_0_iff upt_rec DATATYPES_def memmap_def alloc_def

lemma example_Channel_init:
  "Channel_init example_header example_file 1 [] =
     Inr (example_channel, example_header\<lparr>pos := 144\<rparr>, example_heap)"
  by (simp add: Channel_init_def channel_format_def example_header_def example_file_def
        example_channel_def example_heap_def eval_simps)

lemma bad_data_readheader:
  "\<exists>fs s1. readheader bad_data_header channel_format = Inr (fs, s1)
     \<and> pos s1 = 144 \<and> int_of (fs ! 0) = 119
     \<and> int_of (fs ! 12) = 1 \<and> int_of (fs ! 13) = 2 \<and> int_of (fs ! 14) = 11"
  by (simp add: channel_format_def bad_data_header_def example_header_def example_file_def
        eval_simps)

lemma bad_data_Channel_init:
  "Channel_init bad_data_header example_file 1 [] = Inl AssertionError"
  by (simp add: Channel_init_def channel_format_def bad_data_header_def example_header_def
        example_file_def eval_simps)

lemma bad_size_readheader:
  "\<exists>fs s1. readheader bad_size_header channel_format = Inr (fs, s1) \<and> pos s1 = 144"
  by (simp add: channel_format_def bad_size_header_def example_header_def example_file_def
        eval_simps)

subsection \<open>The checks of \<^verbatim>\<open>Channel.__init__\<close>\<close>

text \<open>
  Claim C4. When the fields of a channel header decode and the decoded \<^verbatim>\<open>DataInFile\<close>
  (field 14) is not \<open>(VariableSize + 4) * SamplesInFile\<close> (fields 12 and 13), the
  constructor fails, with the assertion or, where the header size is wrong as well,
  with the error of the check before it; and every channel that the constructor
  returns satisfies \<open>DataInFile = (VariableSize + 4) * SamplesInFile\<close>.
\<close>

theorem data_size_checked:
  "(readheader headerfile channel_format = Inr (fs, s1)
      \<and> int_of (fs ! 14) \<noteq> (int_of (fs ! 12) + 4) * int_of (fs ! 13)
    \<longrightarrow> Channel_init headerfile file starttime h = Inl AssertionError
        \<or> Channel_init headerfile file starttime h
            = Inl (IOError ''Error reading file: channel header size mismatch''))
   \<and> (Channel_init headerfile file starttime h = Inr (ch, headerfile1, h1)
    \<longrightarrow> DataInFile ch = (VariableSize ch + 4) * SamplesInFile ch)"
proof (intro conjI impI)
  assume "readheader headerfile channel_format = Inr (fs, s1)
      \<and> int_of (fs ! 14) \<noteq> (int_of (fs ! 12) + 4) * int_of (fs ! 13)"
  then show "Channel_init headerfile file starttime h = Inl AssertionError
        \<or> Channel_init headerfile file starttime h
            = Inl (IOError ''Error reading file: channel header size mismatch'')"
    by (simp add: Channel_init_def Let_def)
next
  assume "Channel_init headerfile file starttime h = Inr (ch, headerfile1, h1)"
  from Channel_init_Inr [OF this] show "DataInFile ch = (VariableSize ch + 4) * SamplesInFile ch"
    by auto
qed

theorem data_size_checked_witness:
  "(case readheader bad_data_header channel_format of
      Inr (fs, s1) \<Rightarrow> int_of (fs ! 14) = 11 \<and> (int_of (fs ! 12) + 4) * int_of (fs ! 13) = 10
    | Inl e \<Rightarrow> False)
   \<and> Channel_init bad_data_header example_file 1 [] = Inl AssertionError
   \<and> DataInFile example_channel = 10
   \<and> (VariableSize example_channel + 4) * SamplesInFile example_channel = 10"
proof -
  from bad_data_readheader obtain fs s1
    where r: "readheader bad_data_header channel_format = Inr (fs, s1)"
      and v: "int_of (fs ! 12) = 1" "int_of (fs ! 13) = 2" "int_of (fs ! 14) = 11"
    by blast
  have e: "Channel_init bad_data_header example_file 1 [] = Inl AssertionError
        \<or> Channel_init bad_data_header example_file 1 []
            = Inl (IOError ''Error reading file: channel header size mismatch'')"
    using data_size_checked [of bad_data_header fs s1 example_file 1 "[]"] r v by simp
  have d: "DataInFile example_channel
             = (VariableSize example_channel + 4) * SamplesInFile example_channel"
    using data_size_checked [of example_header _ _ example_file 1 "[]" example_channel]
      example_Channel_init by blast
  have "DataInFile example_channel = 10" by (simp add: example_channel_def)
  with d r v e bad_data_Channel_init show ?thesis by simp
qed

text \<open>
  Claim C5, as stated: decoding a channel header raises an error if and only if the
  number of bytes read differs from the field \<^verbatim>\<open>headersize\<close>. In the header
  \<open>bad_data_header\<close> the record declares 119 bytes and 119 bytes are read, and the
  constructor raises all the same: the check of the data size fails.
\<close>

theorem header_size_iff_counterexample:
  "(case readheader bad_data_header channel_format of
      Inr (fs, s1) \<Rightarrow> int (pos s1) - int (pos bad_data_header) = int (int_of (fs ! 0))
    | Inl e \<Rightarrow> False)
   \<and> Channel_init bad_data_header example_file 1 [] = Inl AssertionError"
proof -
  from bad_data_readheader obtain fs s1
    where r: "readheader bad_data_header channel_format = Inr (fs, s1)"
      and v: "pos s1 = 144" "int_of (fs ! 0) = 119"
    by blast
  have "pos bad_data_header = 25" by (simp add: bad_data_header_def)
  with r v bad_data_Channel_init show ?thesis by simp
qed

text \<open>
  Claim C5, amended: the constructor raises the error \<^verbatim>\<open>channel header size mismatch\<close>
  if and only if the fields of the header decode and the number of bytes read differs
  from the field \<^verbatim>\<open>headersize\<close>, the first eight bytes of the record (other errors
  are raised for other reasons); and when the constructor returns, exactly
  \<^verbatim>\<open>headersize\<close> bytes were read.
\<close>

theorem header_size_checked:
  "(Channel_init headerfile file starttime h
      = Inl (IOError ''Error reading file: channel header size mismatch'')
    \<longleftrightarrow> (\<exists>fs s1. readheader headerfile channel_format = Inr (fs, s1)
          \<and> pos s1 \<noteq> pos headerfile
                + le_nat (take 8 (drop (pos headerfile) (buf headerfile)))))
   \<and> (Channel_init headerfile file starttime h = Inr (ch, headerfile1, h1)
    \<longrightarrow> pos headerfile1
          = pos headerfile + le_nat (take 8 (drop (pos headerfile) (buf headerfile))))"
proof (intro conjI impI iffI)
  assume a: "Channel_init headerfile file starttime h
      = Inl (IOError ''Error reading file: channel header size mismatch'')"
  show "\<exists>fs s1. readheader headerfile channel_format = Inr (fs, s1)
          \<and> pos s1 \<noteq> pos headerfile
                + le_nat (take 8 (drop (pos headerfile) (buf headerfile)))"
  proof (cases "readheader headerfile channel_format")
    case (Inl e)
    with a have "e = IOError ''Error reading file: channel header size mismatch''"
      by (simp add: Channel_init_def)
    with readheader_error [OF Inl] show ?thesis by simp
  next
    case (Inr p)
    obtain fs s1 where p: "p = (fs, s1)" by (cases p)
    from channel_layout [OF Inr [unfolded p]]
    have h0: "int_of (fs ! 0) = le_nat (take 8 (drop (pos headerfile) (buf headerfile)))"
      and le: "pos headerfile \<le> pos s1"
      by simp_all
    have "int (pos s1) - int (pos headerfile) \<noteq> int (int_of (fs ! 0))"
      using a Inr p
      by (auto simp: Channel_init_def Let_def alloc_def
               split: if_splits option.splits sum.splits dest: memmap_error)
    with h0 le have "pos s1 \<noteq> pos headerfile
        + le_nat (take 8 (drop (pos headerfile) (buf headerfile)))"
      by auto
    with Inr p show ?thesis by auto
  qed
next
  assume "\<exists>fs s1. readheader headerfile channel_format = Inr (fs, s1)
          \<and> pos s1 \<noteq> pos headerfile
                + le_nat (take 8 (drop (pos headerfile) (buf headerfile)))"
  then obtain fs s1 where r: "readheader headerfile channel_format = Inr (fs, s1)"
    and n: "pos s1 \<noteq> pos headerfile
                + le_nat (take 8 (drop (pos headerfile) (buf headerfile)))"
    by blast
  from channel_layout [OF r]
  have h0: "int_of (fs ! 0) = le_nat (take 8 (drop (pos headerfile) (buf headerfile)))"
    by simp
  with n have "int (pos s1) - int (pos headerfile) \<noteq> int (int_of (fs ! 0))"
    by auto
  with r show "Channel_init headerfile file starttime h
      = Inl (IOError ''Error reading file: channel header size mismatch'')"
    by (simp add: Channel_init_def Let_def)
next
  assume "Channel_init headerfile file starttime h = Inr (ch, headerfile1, h1)"
  from Channel_init_Inr [OF this] obtain fs
    where r: "readheader headerfile channel_format = Inr (fs, headerfile1)"
      and e: "int (pos headerfile1) - int (pos headerfile) = int (int_of (fs ! 0))"
    by blast
  from channel_layout [OF r]
  have "int_of (fs ! 0) = le_nat (take 8 (drop (pos headerfile) (buf headerfile)))"
    by simp
  with e show "pos headerfile1
          = pos headerfile + le_nat (take 8 (drop (pos headerfile) (buf headerfile)))"
    by auto
qed

theorem header_size_checked_witness:
  "Channel_init bad_size_header example_file 1 []
     = Inl (IOError ''Error reading file: channel header size mismatch'')
   \<and> pos (example_header\<lparr>pos := 144\<rparr>)
       = pos example_header + le_nat (take 8 (drop (pos example_header) (buf example_header)))"
proof -
  from bad_size_readheader obtain fs s1
    where r: "readheader bad_size_header channel_format = Inr (fs, s1)" and p: "pos s1 = 144"
    by blast
  have "le_nat (take 8 (drop (pos bad_size_header) (buf bad_size_header))) = 120"
    and "pos bad_size_header = 25"
    by (simp_all add: bad_size_header_def example_header_def example_file_def)
  with p have "pos s1 \<noteq> pos bad_size_header
      + le_nat (take 8 (drop (pos bad_size_header) (buf bad_size_header)))"
    by simp
  with r have 1: "Channel_init bad_size_header example_file 1 []
     = Inl (IOError ''Error reading file: channel header size mismatch'')"
    using header_size_checked [of bad_size_header example_file 1 "[]"] by blast
  have 2: "pos (example_header\<lparr>pos := 144\<rparr>)
       = pos example_header + le_nat (take 8 (drop (pos example_header) (buf example_header)))"
    using header_size_checked [of example_header example_file 1 "[]" example_channel]
      example_Channel_init by blast
  from 1 2 show ?thesis ..
qed



subsection \<open>The four-byte fields\<close>

lemma le_nat_bound: "le_nat bs < 256 ^ length bs"
proof (induction bs)
  case Nil
  then show ?case by simp
next
  case (Cons b bs)
  have "unat b < 256" using unsigned_less [of b, where ?'a = nat] by simp
  with Cons show ?case by simp
qed

lemma le_nat_take4: "le_nat (take 4 bs) < 2 ^ 32"
proof -
  have "le_nat (take 4 bs) < 256 ^ length (take 4 bs)" by (rule le_nat_bound)
  also have "(256::nat) ^ length (take 4 bs) \<le> 256 ^ 4"
    by (rule power_increasing) simp_all
  finally show ?thesis by simp
qed

lemma file_layout:
  assumes "readheader s file_format = Inr (fs, s1)"
  shows "fs ! 3 = Int_val (le_nat (take 4
            (drop (pos s + 20 + length (str_of (fs ! 0))) (buf s))))
       \<and> pos s + 24 + length (str_of (fs ! 0)) \<le> length (buf s)"
  using assms
  by (auto simp: file_format_def readheader_Cons_iff readfield_L_iff add_ac
           simp del: readheader.simps(2) readfield.simps dest!: readfield_str readfield_T)

lemma take_drop_take:
  assumes "k + 4 \<le> length (take n xs)"
  shows "take 4 (drop k (take n xs)) = take 4 (drop k xs)"
proof -
  from assms have "k + 4 \<le> n" by simp
  then have "min 4 (n - k) = 4" by simp
  then show ?thesis by (simp add: drop_take)
qed

lemma SVBFile_init_Inr:
  assumes "SVBFile_init bytes h = Inr (sv, h1)"
  shows "\<exists>n fs s1. readheader \<lparr>buf = take n (drop 8 bytes), pos = 0\<rparr> file_format = Inr (fs, s1)
           \<and> ChannelCount sv = int_of (fs ! 3) \<and> file_Name sv = str_of (fs ! 0)"
proof -
  define headerSize where "headerSize = le_nat (take 8 bytes)"
  define n where "n = (if headerSize = 7 then length bytes else headerSize - 8)"
  from assms obtain fs s1
    where "readheader \<lparr>buf = take n (drop 8 bytes), pos = 0\<rparr> file_format = Inr (fs, s1)"
      and "ChannelCount sv = int_of (fs ! 3)" and "file_Name sv = str_of (fs ! 0)"
    unfolding n_def headerSize_def
    by (auto simp: SVBFile_init_def read_def Let_def
             split: if_splits sum.splits prod.splits)
  then show ?thesis by blast
qed

lemma fl64_1: "fl64 1 = 1"
  by code_simp

lemma fl64_2: "fl64 2 = 2"
  by code_simp

lemma example_SVBFile_init:
  "\<exists>sv. SVBFile_init example_file [] = Inr (sv, example_heap)
     \<and> ChannelCount sv = 1 \<and> file_Name sv = ''f'' \<and> channels sv = [(''a'', example_channel)]"
  using round_half_even_of_int [of 1] round_half_even_of_int [of 2]
  by (simp add: SVBFile_init_def file_format_def Channel_init_def channel_format_def
        example_file_def example_channel_def example_heap_def eval_simps Let_def
        truediv_def fl64_1 fl64_2 epoch_plus_microseconds_def datetime_max_def)

text \<open>
  Claim C6, as stated: the channel count of the file header and the fields port,
  data-type id and value byte width of a channel record are decoded as eight-byte
  integers. At the positions of these four fields in the example (bytes 21, 42, 88 and
  92 of the header), decoding with the format character of the source differs from
  decoding as \<^verbatim>\<open>Q\<close>.
\<close>

theorem uint64_fields_counterexample:
  "readfield (file_format ! 3) (example_header\<lparr>pos := 21\<rparr>)
     \<noteq> readfield Fmt_Q (example_header\<lparr>pos := 21\<rparr>)
   \<and> readfield (channel_format ! 3) (example_header\<lparr>pos := 42\<rparr>)
     \<noteq> readfield Fmt_Q (example_header\<lparr>pos := 42\<rparr>)
   \<and> readfield (channel_format ! 11) (example_header\<lparr>pos := 88\<rparr>)
     \<noteq> readfield Fmt_Q (example_header\<lparr>pos := 88\<rparr>)
   \<and> readfield (channel_format ! 12) (example_header\<lparr>pos := 92\<rparr>)
     \<noteq> readfield Fmt_Q (example_header\<lparr>pos := 92\<rparr>)"
  by (simp add: file_format_def channel_format_def example_header_def example_file_def
        read_def Let_def)

text \<open>
  Claim C6, amended: the channel count of the file header and the fields port,
  data-type id and value byte width of a channel record are each decoded as a
  four-byte (uint32) little-endian unsigned integer. The channel count is read from the
  four bytes after the file name and the two timestamps; the port from the four bytes
  after the record size and the two strings; the data-type id and the value byte width
  from the two groups of four bytes that precede the last 48 bytes of the record (the
  sample count, an eight-byte integer, follows them directly).
\<close>

theorem uint32_fields:
  "(SVBFile_init bytes h = Inr (sv, h1)
    \<longrightarrow> ChannelCount sv = le_nat (take 4 (drop (28 + length (file_Name sv)) bytes))
        \<and> ChannelCount sv < 2 ^ 32)
   \<and> (Channel_init headerfile file starttime h = Inr (ch, headerfile1, h2)
    \<longrightarrow> Port ch = le_nat (take 4
            (drop (pos headerfile + 16 + length (Name ch) + length (NetId ch)) (buf headerfile)))
        \<and> DataTypeId ch = le_nat (take 4 (drop (pos headerfile1 - 56) (buf headerfile)))
        \<and> VariableSize ch = le_nat (take 4 (drop (pos headerfile1 - 52) (buf headerfile)))
        \<and> SamplesInFile ch = le_nat (take 8 (drop (pos headerfile1 - 48) (buf headerfile)))
        \<and> Port ch < 2 ^ 32 \<and> DataTypeId ch < 2 ^ 32 \<and> VariableSize ch < 2 ^ 32)"
proof (intro conjI impI)
  assume "SVBFile_init bytes h = Inr (sv, h1)"
  from SVBFile_init_Inr [OF this] obtain n fs s1
    where r: "readheader \<lparr>buf = take n (drop 8 bytes), pos = 0\<rparr> file_format = Inr (fs, s1)"
      and c: "ChannelCount sv = int_of (fs ! 3)" and f: "file_Name sv = str_of (fs ! 0)"
    by blast
  from file_layout [OF r]
  have v: "fs ! 3 = Int_val (le_nat (take 4
            (drop (20 + length (str_of (fs ! 0))) (take n (drop 8 bytes)))))"
    and l: "(20 + length (str_of (fs ! 0))) + 4 \<le> length (take n (drop 8 bytes))"
    by simp_all
  from take_drop_take [OF l] v c f
  show e: "ChannelCount sv = le_nat (take 4 (drop (28 + length (file_Name sv)) bytes))"
    by (simp add: add_ac)
  show "ChannelCount sv < 2 ^ 32" unfolding e by (rule le_nat_take4)
next
  assume a: "Channel_init headerfile file starttime h = Inr (ch, headerfile1, h2)"
  from Channel_init_Inr [OF a] obtain fs
    where r: "readheader headerfile channel_format = Inr (fs, headerfile1)"
      and n: "Name ch = str_of (fs ! 1)" "NetId ch = str_of (fs ! 2)"
      and p: "Port ch = int_of (fs ! 3)" "DataTypeId ch = int_of (fs ! 11)"
        "VariableSize ch = int_of (fs ! 12)" "SamplesInFile ch = int_of (fs ! 13)"
    by blast
  from channel_layout [OF r] n p
  show 1: "Port ch = le_nat (take 4
            (drop (pos headerfile + 16 + length (Name ch) + length (NetId ch)) (buf headerfile)))"
    and 2: "DataTypeId ch = le_nat (take 4 (drop (pos headerfile1 - 56) (buf headerfile)))"
    and 3: "VariableSize ch = le_nat (take 4 (drop (pos headerfile1 - 52) (buf headerfile)))"
    and "SamplesInFile ch = le_nat (take 8 (drop (pos headerfile1 - 48) (buf headerfile)))"
    by simp_all
  show "Port ch < 2 ^ 32" unfolding 1 by (rule le_nat_take4)
  show "DataTypeId ch < 2 ^ 32" unfolding 2 by (rule le_nat_take4)
  show "VariableSize ch < 2 ^ 32" unfolding 3 by (rule le_nat_take4)
qed

theorem uint32_fields_witness:
  "(case SVBFile_init example_file [] of
      Inr (sv, h1) \<Rightarrow> ChannelCount sv = 1 \<and> le_nat (take 4 (drop 29 example_file)) = 1
    | Inl e \<Rightarrow> False)
   \<and> Port example_channel = le_nat (take 4 (drop 42 (buf example_header)))
   \<and> DataTypeId example_channel = le_nat (take 4 (drop 88 (buf example_header)))
   \<and> VariableSize example_channel = le_nat (take 4 (drop 92 (buf example_header)))
   \<and> SamplesInFile example_channel = le_nat (take 8 (drop 96 (buf example_header)))"
proof -
  from example_SVBFile_init obtain sv
    where i: "SVBFile_init example_file [] = Inr (sv, example_heap)"
      and c: "ChannelCount sv = 1" and f: "file_Name sv = ''f''"
    by blast
  have "ChannelCount sv = le_nat (take 4 (drop (28 + length (file_Name sv)) example_file))"
    using uint32_fields [of example_file "[]" sv example_heap] i by blast
  with c f have 1: "le_nat (take 4 (drop 29 example_file)) = 1" by simp
  have n: "Name example_channel = ''a''" "NetId example_channel = []"
    "pos example_header = 25"
    by (simp_all add: example_channel_def example_header_def)
  have "Port example_channel = le_nat (take 4
            (drop (pos example_header + 16 + length (Name example_channel)
               + length (NetId example_channel)) (buf example_header)))
        \<and> DataTypeId example_channel
            = le_nat (take 4 (drop (pos (example_header\<lparr>pos := 144\<rparr>) - 56) (buf example_header)))
        \<and> VariableSize example_channel
            = le_nat (take 4 (drop (pos (example_header\<lparr>pos := 144\<rparr>) - 52) (buf example_header)))
        \<and> SamplesInFile example_channel
            = le_nat (take 8 (drop (pos (example_header\<lparr>pos := 144\<rparr>) - 48) (buf example_header)))"
    using uint32_fields [of _ "[]" _ _ example_header example_file 1 example_channel]
      example_Channel_init by blast
  with n have 2: "Port example_channel = le_nat (take 4 (drop 42 (buf example_header)))
   \<and> DataTypeId example_channel = le_nat (take 4 (drop 88 (buf example_header)))
   \<and> VariableSize example_channel = le_nat (take 4 (drop 92 (buf example_header)))
   \<and> SamplesInFile example_channel = le_nat (take 8 (drop 96 (buf example_header)))"
    by simp
  from i c 1 2 show ?thesis by simp
qed

subsection \<open>Interpolation on the own time axis\<close>

lemma Time_Inr:
  "Time h ch = Inr (tm, ch1) \<Longrightarrow> Data ch1 = Data ch \<and> time_cache ch1 = Some tm"
  by (auto simp: Time_def Let_def split: option.splits sum.splits)

lemma np_all_eq_refl: "np_all_eq t t"
  by (simp add: np_all_eq_def list.rel_refl)

lemma interpolate_fast:
  assumes "Time h ch = Inr (tm, ch1)"
  shows "interpolate interp h ch tm = Inr (length h, ch1, h @ [Values h ch])"
proof -
  from Time_Inr [OF assms] have "Values h ch1 = Values h ch" by (simp add: Values_def)
  with assms show ?thesis
    by (simp add: interpolate_def np_all_eq_refl alloc_def)
qed

text \<open>
  Claim C8. For a channel that has a time axis (\<^verbatim>\<open>Time\<close> raises on a channel without
  samples), \<^verbatim>\<open>interpolate\<close> called with that time axis returns a new array whose
  contents are exactly the values of the channel, whatever \<^verbatim>\<open>np.interp\<close> would
  compute.
\<close>

theorem interpolate_own_axis:
  assumes "Time h ch = Inr (tm, ch1)"
  shows "interpolate interp h ch tm = Inr (length h, ch1, h @ [Values h ch])
       \<and> (h @ [Values h ch]) ! length h = Values h ch"
  using interpolate_fast [OF assms] by simp

lemma example_Values: "Values example_heap example_channel = Owned np_uint8 [[1], [2]]"
  by (simp add: Values_def example_heap_def example_channel_def)

theorem interpolate_own_axis_witness:
  "interpolate (\<lambda>t xp fp. Inl ValueError) example_heap example_channel
       [fl64 (10 / 10 ^ 7), fl64 (5 / 10 ^ 7)]
     = Inr (1, example_channel\<lparr>time_cache := Some [fl64 (10 / 10 ^ 7), fl64 (5 / 10 ^ 7)]\<rparr>,
            example_heap @ [Owned np_uint8 [[1], [2]]])
   \<and> (example_heap @ [Owned np_uint8 [[1], [2]]]) ! 1 = Values example_heap example_channel"
  using interpolate_own_axis [OF example_Time, of "\<lambda>t xp fp. Inl ValueError"]
  by (simp add: example_Values) (simp add: example_heap_def)

text \<open>
  Claim C10. On that path the returned array is a fresh one: its address is not an
  address of the store before the call and differs from the address of the channel's
  mapped array, so that whatever is written through the returned array, the values of
  the channel, its mapped array and every other array of the old store stay as they
  were.
\<close>

theorem interpolate_returns_copy:
  assumes "channel_ok h ch" and "Time h ch = Inr (tm, ch1)"
  shows "\<exists>a h1. interpolate interp h ch tm = Inr (a, ch1, h1)
           \<and> length h \<le> a \<and> a \<noteq> Data ch1
           \<and> (\<forall>x. Values (store a x h1) ch1 = Values h ch
                  \<and> store a x h1 ! Data ch1 = h ! Data ch
                  \<and> take (length h) (store a x h1) = h)"
proof -
  from assms(1) have d: "Data ch < length h" by (simp add: channel_ok_def)
  from Time_Inr [OF assms(2)] have e: "Data ch1 = Data ch" by simp
  have "\<forall>x. Values (store (length h) x (h @ [Values h ch])) ch1 = Values h ch
          \<and> store (length h) x (h @ [Values h ch]) ! Data ch1 = h ! Data ch
          \<and> take (length h) (store (length h) x (h @ [Values h ch])) = h"
    using d e by (simp add: store_def Values_def nth_append)
  with interpolate_fast [OF assms(2), of interp] d e show ?thesis by auto
qed

theorem interpolate_returns_copy_witness:
  "channel_ok example_heap example_channel
   \<and> (case interpolate (\<lambda>t xp fp. Inl ValueError) example_heap example_channel
              [fl64 (10 / 10 ^ 7), fl64 (5 / 10 ^ 7)] of
        Inr (a, ch1, h1) \<Rightarrow>
          a = 1 \<and> h1 ! a = Owned np_uint8 [[1], [2]]
          \<and> Values (store a (Owned np_uint8 [[9], [2]]) h1) ch1 = Owned np_uint8 [[1], [2]]
          \<and> store a (Owned np_uint8 [[9], [2]]) h1 ! Data ch1 = example_heap ! 0
      | Inl e \<Rightarrow> False)"
proof -
  have ok: "channel_ok example_heap example_channel"
    by (simp add: channel_ok_def example_heap_def example_channel_def)
  from interpolate_returns_copy [OF ok example_Time, of "\<lambda>t xp fp. Inl ValueError"]
  obtain a h1 where i: "interpolate (\<lambda>t xp fp. Inl ValueError) example_heap example_channel
              [fl64 (10 / 10 ^ 7), fl64 (5 / 10 ^ 7)]
            = Inr (a, example_channel\<lparr>time_cache := Some [fl64 (10 / 10 ^ 7), fl64 (5 / 10 ^ 7)]\<rparr>, h1)"
    and v: "Values (store a (Owned np_uint8 [[9], [2]]) h1)
              (example_channel\<lparr>time_cache := Some [fl64 (10 / 10 ^ 7), fl64 (5 / 10 ^ 7)]\<rparr>)
            = Values example_heap example_channel"
    and m: "store a (Owned np_uint8 [[9], [2]]) h1
              ! Data (example_channel\<lparr>time_cache := Some [fl64 (10 / 10 ^ 7), fl64 (5 / 10 ^ 7)]\<rparr>)
            = example_heap ! Data example_channel"
    by blast
  from i interpolate_fast [OF example_Time, of "\<lambda>t xp fp. Inl ValueError"]
  have a: "a = 1" and h1: "h1 = example_heap @ [Owned np_uint8 [[1], [2]]]"
    by (simp_all add: example_Values [unfolded example_heap_def] example_heap_def)
  have d: "Data example_channel = 0" by (simp add: example_channel_def)
  from ok i v m a h1 d show ?thesis
    by (simp add: example_Values) (simp add: example_heap_def Values_def example_channel_def)
qed

end
